theory Spec2Isabelle
  imports Main
begin

section \<open>Wire protocol (types/messages.ts)\<close>

datatype Role = white | black

datatype Turn = turn_w | turn_b

datatype Reason = checkmate

datatype WireMessage =
    IFRAME_READY
  | ROLE_ASSIGN Role
  | REQUEST_SYNC
  | SYNC_STATE string "string option"
  | BOARD_UPDATE string
  | TURN Turn
  | RESET
  | GAME_OVER Role Reason

section \<open>Browser storage and the JSON codec\<close>

text \<open>
  \<^verbatim>\<open>localStorage\<close> is the browser's key-value store. Its operations can throw, which is
  why every call of the storage service sits in a \<^verbatim>\<open>try\<close>: access to the store can be
  denied altogether (a SecurityError on every operation), and \<^verbatim>\<open>setItem\<close> throws a
  QuotaExceededError when the store is full. The store is modelled by its items and by the
  fault it is in.
\<close>

datatype ls_fault = NoFault | QuotaExceeded | AccessDenied

record local_storage =
  items :: "string \<rightharpoonup> string"
  fault :: ls_fault

datatype dom_exception = SecurityError | QuotaExceededError

definition getItem :: "local_storage \<Rightarrow> string \<Rightarrow> dom_exception + string option" where
  "getItem ls k = (if fault ls = AccessDenied then Inl SecurityError else Inr (items ls k))"

definition setItem :: "local_storage \<Rightarrow> string \<Rightarrow> string \<Rightarrow> dom_exception + local_storage" where
  "setItem ls k v =
     (if fault ls = AccessDenied then Inl SecurityError
      else if fault ls = QuotaExceeded then Inl QuotaExceededError
      else Inr (ls\<lparr>items := (items ls)(k \<mapsto> v)\<rparr>))"

definition removeItem :: "local_storage \<Rightarrow> string \<Rightarrow> dom_exception + local_storage" where
  "removeItem ls k =
     (if fault ls = AccessDenied then Inl SecurityError
      else Inr (ls\<lparr>items := (items ls)(k := None)\<rparr>))"

text \<open>
  \<^verbatim>\<open>JSON.stringify\<close> and \<^verbatim>\<open>JSON.parse\<close> belong to the platform and are parameters of the
  model. Either may throw (\<open>None\<close>): \<^verbatim>\<open>stringify\<close> on a value that has no JSON text,
  \<^verbatim>\<open>parse\<close> on a text that is not JSON.
\<close>

record 'a json =
  stringify :: "'a \<Rightarrow> string option"
  parse :: "string \<Rightarrow> 'a option"

section \<open>StorageService (services/storage.service.ts)\<close>

text \<open>
  \<^verbatim>\<open>load\<close> returns \<^verbatim>\<open>null\<close> (\<open>None\<close>) when the read throws, when no item is stored, when
  the stored text is the empty string (\<^verbatim>\<open>raw ? ... : null\<close>) and when parsing throws.
  \<^verbatim>\<open>save\<close> and \<^verbatim>\<open>clear\<close> swallow every exception and then leave the store as it was.
\<close>

definition load :: "'a json \<Rightarrow> string \<Rightarrow> local_storage \<Rightarrow> 'a option" where
  "load J key ls =
     (case getItem ls key of
        Inl e \<Rightarrow> None
      | Inr None \<Rightarrow> None
      | Inr (Some raw) \<Rightarrow> (if raw = [] then None else parse J raw))"

definition save :: "'a json \<Rightarrow> string \<Rightarrow> 'a \<Rightarrow> local_storage \<Rightarrow> local_storage" where
  "save J key state ls =
     (case stringify J state of
        None \<Rightarrow> ls
      | Some text \<Rightarrow> (case setItem ls key text of Inl e \<Rightarrow> ls | Inr ls' \<Rightarrow> ls'))"

definition clear :: "string \<Rightarrow> local_storage \<Rightarrow> local_storage" where
  "clear key ls = (case removeItem ls key of Inl e \<Rightarrow> ls | Inr ls' \<Rightarrow> ls')"

section \<open>Collaborators: the rules engine and the board widget\<close>

text \<open>
  The rules engine is the \<^verbatim>\<open>Chess\<close> class of chess.js, a library outside the repository.
  It is a parameter of the model: a record of its operations over the engine's state
  \<open>'c\<close>. \<^verbatim>\<open>load\<close> throws on a position it rejects (\<open>None\<close>); the library validates
  the position before it touches its own state, so an engine whose \<^verbatim>\<open>load\<close> threw still
  holds the position it held before.
\<close>

record 'c rules =
  chess_new :: 'c
  chess_load :: "'c \<Rightarrow> string \<Rightarrow> 'c option"
  chess_turn :: "'c \<Rightarrow> Turn"
  chess_isCheckmate :: "'c \<Rightarrow> bool"
  chess_fen :: "'c \<Rightarrow> string"
  chess_pgn :: "'c \<Rightarrow> string"

text \<open>
  The board widget is \<^verbatim>\<open>NgxChessBoardView\<close> of ngx-chess-board. What the components use
  of it: the position it shows and whether it is shown reversed. \<^verbatim>\<open>reverse\<close> is a toggle;
  \<^verbatim>\<open>setFEN\<close> and \<^verbatim>\<open>reset\<close> put the widget back to the default orientation, which is why
  both components set their \<^verbatim>\<open>isReversed\<close> flag to \<^verbatim>\<open>false\<close> after these calls
  (\<^verbatim>\<open>// setFEN may reset orientation; re-apply if needed\<close>). \<open>flips\<close> counts the
  calls of \<^verbatim>\<open>reverse\<close> the widget has received.
\<close>

record board_view =
  shown :: string
  reversed :: bool
  flips :: nat

definition startFEN :: string where
  "startFEN = ''rnbqkbnr/pppppppp/8/8/8/8/PPPPPPPP/RNBQKBNR w KQkq - 0 1''"

definition getFEN :: "board_view \<Rightarrow> string" where
  "getFEN b = shown b"

definition setFEN :: "string \<Rightarrow> board_view \<Rightarrow> board_view" where
  "setFEN f b = b\<lparr>shown := f, reversed := False\<rparr>"

definition reverse :: "board_view \<Rightarrow> board_view" where
  "reverse b = b\<lparr>reversed := \<not> reversed b, flips := Suc (flips b)\<rparr>"

definition reset :: "board_view \<Rightarrow> board_view" where
  "reset b = b\<lparr>shown := startFEN, reversed := False\<rparr>"

definition toUpperCase :: "Role \<Rightarrow> string" where
  "toUpperCase r = (case r of white \<Rightarrow> ''WHITE'' | black \<Rightarrow> ''BLACK'')"

section \<open>GameHostComponent (features/game-host/game-host.component.ts)\<close>

datatype SavedState = SavedState (saved_fen: string)

definition offline_key :: string where
  "offline_key = ''offline-game-state''"

text \<open>
  The host's fields, the content windows of its two frames (\<open>None\<close> is \<^verbatim>\<open>null\<close>), the
  browser storage it writes to, and \<open>sent\<close>, the messages it has posted so far, each with
  the window it was posted to.
\<close>

record ('c, 'w) host =
  chess :: 'c
  currentTurnText :: string
  overlayVisible :: bool
  overlayText :: string
  origin :: string
  window1 :: "'w option"
  window2 :: "'w option"
  storage :: local_storage
  sent :: "('w \<times> WireMessage) list"

record 'w message_event =
  ev_origin :: string
  ev_source :: "'w option"
  ev_data :: "WireMessage option"

definition otherWindow :: "('c, 'w) host \<Rightarrow> 'w \<Rightarrow> 'w option" where
  "otherWindow h src = (if Some src = window1 h then window2 h else window1 h)"

definition currentTurnWindow :: "'c rules \<Rightarrow> ('c, 'w) host \<Rightarrow> 'w option" where
  "currentTurnWindow E h = (if chess_turn E (chess h) = turn_w then window1 h else window2 h)"

definition postTo :: "'w option \<Rightarrow> WireMessage \<Rightarrow> ('c, 'w) host \<Rightarrow> ('c, 'w) host" where
  "postTo target msg h =
     (case target of None \<Rightarrow> h | Some t \<Rightarrow> h\<lparr>sent := sent h @ [(t, msg)]\<rparr>)"

definition postToBoth :: "WireMessage \<Rightarrow> ('c, 'w) host \<Rightarrow> ('c, 'w) host" where
  "postToBoth msg h = postTo (window2 h) msg (postTo (window1 h) msg h)"

text \<open>The frames whose window exists, first frame first: the targets a broadcast reaches.\<close>

definition frames :: "('c, 'w) host \<Rightarrow> 'w list" where
  "frames h =
     (case window1 h of None \<Rightarrow> [] | Some t \<Rightarrow> [t]) @ (case window2 h of None \<Rightarrow> [] | Some t \<Rightarrow> [t])"

definition syncStateTo :: "'c rules \<Rightarrow> 'w \<Rightarrow> ('c, 'w) host \<Rightarrow> ('c, 'w) host" where
  "syncStateTo E target h = postTo (Some target) (SYNC_STATE (chess_fen E (chess h)) None) h"

definition broadcastTurn :: "'c rules \<Rightarrow> ('c, 'w) host \<Rightarrow> ('c, 'w) host" where
  "broadcastTurn E h =
     (let t = chess_turn E (chess h)
      in postToBoth (TURN t)
           (h\<lparr>currentTurnText := (if t = turn_w then ''White to move'' else ''Black to move'')\<rparr>))"

definition isFromCurrentTurn :: "'c rules \<Rightarrow> ('c, 'w) host \<Rightarrow> 'w \<Rightarrow> bool" where
  "isFromCurrentTurn E h srcWin = (Some srcWin = currentTurnWindow E h)"

definition winnerOf :: "Turn \<Rightarrow> Role" where
  "winnerOf t = (if t = turn_w then black else white)"

text \<open>
  The \<^verbatim>\<open>BOARD_UPDATE\<close> case of the host's message handler. \<open>winnerOf\<close> is the expression
  \<^verbatim>\<open>turn === 'w' ? 'black' : 'white'\<close> that both the host and the online component use.
\<close>

definition onBoardUpdate ::
  "'c rules \<Rightarrow> SavedState json \<Rightarrow> ('c, 'w) host \<Rightarrow> 'w \<Rightarrow> string \<Rightarrow> ('c, 'w) host" where
  "onBoardUpdate E J h srcWin f =
     (if \<not> isFromCurrentTurn E h srcWin then h
      else case chess_load E (chess h) f of
        None \<Rightarrow> h
      | Some c \<Rightarrow>
          (let h1 = h\<lparr>chess := c\<rparr>;
               h2 = h1\<lparr>storage := save J offline_key (SavedState f) (storage h1)\<rparr>
           in if chess_isCheckmate E (chess h2)
              then (let winner = winnerOf (chess_turn E (chess h2));
                        h3 = postToBoth (GAME_OVER winner checkmate) h2
                    in h3\<lparr>overlayText := toUpperCase winner @ '' wins by checkmate'',
                          overlayVisible := True\<rparr>)
              else broadcastTurn E (postTo (otherWindow h2 srcWin) (SYNC_STATE f None) h2)))"

definition host_onMessage ::
  "'c rules \<Rightarrow> SavedState json \<Rightarrow> ('c, 'w) host \<Rightarrow> 'w message_event \<Rightarrow> ('c, 'w) host" where
  "host_onMessage E J h ev =
     (if ev_origin ev \<noteq> origin h then h
      else case ev_source ev of
        None \<Rightarrow> h
      | Some srcWin \<Rightarrow>
          (case ev_data ev of
             None \<Rightarrow> h
           | Some IFRAME_READY \<Rightarrow>
               (let role = (if Some srcWin = window1 h then white else black)
                in broadcastTurn E (syncStateTo E srcWin (postTo (Some srcWin) (ROLE_ASSIGN role) h)))
           | Some REQUEST_SYNC \<Rightarrow> broadcastTurn E (syncStateTo E srcWin h)
           | Some (BOARD_UPDATE f) \<Rightarrow> onBoardUpdate E J h srcWin f
           | Some other \<Rightarrow> h))"

section \<open>BoardEmbedComponent (features/board-embed/board-embed.component.ts)\<close>

text \<open>
  \<open>posted\<close> collects the messages the child has posted to its parent window;
  \<open>location_origin\<close> is \<^verbatim>\<open>window.location.origin\<close>.
\<close>

record embed =
  role :: "Role option"
  moveDisabled :: bool
  applyingRemote :: bool
  isReversed :: bool
  board :: board_view
  location_origin :: string
  posted :: "WireMessage list"

record embed_event =
  msg_origin :: string
  msg_data :: "WireMessage option"

definition darkDisabled :: "embed \<Rightarrow> bool" where
  "darkDisabled s = (role s = Some white \<or> moveDisabled s \<or> applyingRemote s)"

definition lightDisabled :: "embed \<Rightarrow> bool" where
  "lightDisabled s = (role s = Some black \<or> moveDisabled s \<or> applyingRemote s)"

definition ensureOrientation :: "embed \<Rightarrow> embed" where
  "ensureOrientation s =
     (let shouldBeReversed = (role s = Some black)
      in if shouldBeReversed \<noteq> isReversed s
         then s\<lparr>board := reverse (board s), isReversed := shouldBeReversed\<rparr>
         else s)"

definition embed_onUserMove :: "embed \<Rightarrow> embed" where
  "embed_onUserMove s =
     (if applyingRemote s then s
      else s\<lparr>posted := posted s @ [BOARD_UPDATE (getFEN (board s))]\<rparr>)"

definition isMyTurn :: "Role \<Rightarrow> Turn \<Rightarrow> bool" where
  "isMyTurn r t = ((r = white \<and> t = turn_w) \<or> (r = black \<and> t = turn_b))"

definition embed_onMessage :: "embed \<Rightarrow> embed_event \<Rightarrow> embed" where
  "embed_onMessage s ev =
     (if msg_origin ev \<noteq> location_origin s then s
      else case msg_data ev of
        None \<Rightarrow> s
      | Some (ROLE_ASSIGN r) \<Rightarrow> ensureOrientation (s\<lparr>role := Some r\<rparr>)
      | Some (SYNC_STATE f p) \<Rightarrow>
          (let s1 = s\<lparr>applyingRemote := True\<rparr>;
               s2 = s1\<lparr>board := setFEN f (board s1)\<rparr>;
               s3 = ensureOrientation (s2\<lparr>isReversed := False\<rparr>)
           in s3\<lparr>applyingRemote := False\<rparr>)
      | Some (TURN t) \<Rightarrow>
          (case role s of
             None \<Rightarrow> s
           | Some r \<Rightarrow> s\<lparr>moveDisabled := \<not> isMyTurn r t\<rparr>)
      | Some RESET \<Rightarrow>
          (let s1 = s\<lparr>applyingRemote := True\<rparr>;
               s2 = s1\<lparr>board := reset (board s1)\<rparr>;
               s3 = s2\<lparr>applyingRemote := False\<rparr>;
               s4 = ensureOrientation (s3\<lparr>isReversed := False\<rparr>)
           in s4\<lparr>moveDisabled := (role s4 \<noteq> Some white)\<rparr>)
      | Some (GAME_OVER winner reason) \<Rightarrow> s\<lparr>moveDisabled := True\<rparr>
      | Some other \<Rightarrow> s)"

text \<open>
  What holds of a child from its creation on: the orientation flag agrees with the board
  widget, and a child without a role has its moves disabled.
\<close>

definition embed_inv :: "embed \<Rightarrow> bool" where
  "embed_inv s = (isReversed s = reversed (board s) \<and> (role s = None \<longrightarrow> moveDisabled s))"

section \<open>OnlineGameComponent (features/online-game/online-game.component.ts)\<close>

text \<open>
  The room document of the realtime database. A node of the database holds whichever
  children were written to it, so every field is optional (\<open>None\<close>: the child is absent
  or \<^verbatim>\<open>null\<close>). A player slot holds the \<^verbatim>\<open>id\<close> of its occupant.
\<close>

datatype Status = waiting | live | ended

record PlayersDoc =
  white_player :: "string option"
  black_player :: "string option"

record GameDoc =
  fen :: "string option"
  pgn :: "string option"
  turn :: "Turn option"
  status :: "Status option"
  winner :: "Role option"
  players :: "PlayersDoc option"

text \<open>
  The remote store: the documents under \<^verbatim>\<open>games/{code}\<close> and the log of the writes
  made to it. \<^verbatim>\<open>update(ref, values)\<close> overwrites the children named in \<open>values\<close>
  (those that are not \<open>None\<close>) and keeps the others; it is logged with its path and values.
\<close>

record remote =
  docs :: "string \<rightharpoonup> GameDoc"
  writes :: "(string \<times> GameDoc) list"

definition noDoc :: GameDoc where
  "noDoc = \<lparr>fen = None, pgn = None, turn = None, status = None, winner = None, players = None\<rparr>"

definition orElse :: "'a option \<Rightarrow> 'a option \<Rightarrow> 'a option" where
  "orElse new old = (case new of None \<Rightarrow> old | Some v \<Rightarrow> Some v)"

definition merge :: "GameDoc \<Rightarrow> GameDoc \<Rightarrow> GameDoc" where
  "merge d v =
     \<lparr>fen = orElse (fen v) (fen d), pgn = orElse (pgn v) (pgn d),
      turn = orElse (turn v) (turn d), status = orElse (status v) (status d),
      winner = orElse (winner v) (winner d), players = orElse (players v) (players d)\<rparr>"

definition update :: "remote \<Rightarrow> string \<Rightarrow> GameDoc \<Rightarrow> remote" where
  "update r path v =
     r\<lparr>docs := (docs r)(path \<mapsto> merge (case docs r path of None \<Rightarrow> noDoc | Some d \<Rightarrow> d) v),
       writes := writes r @ [(path, v)]\<rparr>"

datatype OnlineLocalState = OnlineLocalState string Role string

definition online_key :: string where
  "online_key = ''online-game-state''"

text \<open>
  The component's fields. \<open>og_gameRef\<close> is the room code the database reference points
  to, \<open>og_unsub\<close> the room the component is subscribed to. The subscription's callback
  runs on later change events and is not part of the operations below.
\<close>

record 'c online =
  og_code :: string
  og_statusText :: string
  og_overlayVisible :: bool
  og_overlayText :: string
  og_chess :: 'c
  og_role :: "Role option"
  og_applyingRemote :: bool
  og_bothJoined :: bool
  og_moveDisabled :: bool
  og_isReversed :: bool
  og_gameRef :: "string option"
  og_unsub :: "string option"
  og_clientId :: string
  og_board :: board_view
  og_storage :: local_storage

definition orientForRole :: "'c online \<Rightarrow> 'c online" where
  "orientForRole s =
     (let shouldBeReversed = (og_role s = Some black)
      in if shouldBeReversed \<noteq> og_isReversed s
         then s\<lparr>og_board := reverse (og_board s), og_isReversed := shouldBeReversed\<rparr>
         else s)"

definition listenForUpdates :: "'c online \<Rightarrow> 'c online" where
  "listenForUpdates s = (if og_gameRef s = None then s else s\<lparr>og_unsub := og_gameRef s\<rparr>)"

definition handleGameOver :: "Role \<Rightarrow> 'c online \<Rightarrow> 'c online" where
  "handleGameOver w s =
     s\<lparr>og_moveDisabled := True,
       og_overlayText := toUpperCase w @ '' wins by checkmate'',
       og_overlayVisible := True,
       og_storage := clear online_key (og_storage s)\<rparr>"

text \<open>\<^verbatim>\<open>!!players.white?.id\<close>: the slot is there and its id is not the empty string.\<close>

definition taken :: "string option \<Rightarrow> bool" where
  "taken slot = (case slot of None \<Rightarrow> False | Some i \<Rightarrow> i \<noteq> [])"

definition noPlayers :: PlayersDoc where
  "noPlayers = \<lparr>white_player = None, black_player = None\<rparr>"

definition joined :: "OnlineLocalState json \<Rightarrow> Role \<Rightarrow> 'c online \<Rightarrow> 'c online" where
  "joined J myRole s =
     (let s1 = s\<lparr>og_storage :=
                  save J online_key (OnlineLocalState (og_code s) myRole (og_clientId s))
                    (og_storage s)\<rparr>;
          s2 = listenForUpdates s1;
          s3 = s2\<lparr>og_statusText := ''Joined game: '' @ og_code s2,
                  og_moveDisabled := True, og_isReversed := False\<rparr>
      in orientForRole s3)"

definition joinGame ::
  "OnlineLocalState json \<Rightarrow> 'c online \<times> remote \<Rightarrow> 'c online \<times> remote" where
  "joinGame J sr =
     (let s = fst sr; r = snd sr
      in if og_role s \<noteq> None then (s, r)
         else if og_code s = [] then (s\<lparr>og_statusText := ''Enter a game code first.''\<rparr>, r)
         else
           (let s0 = s\<lparr>og_gameRef := Some (og_code s)\<rparr>
            in case docs r (og_code s) of
                 None \<Rightarrow> (s0\<lparr>og_statusText := ''Game not found.'', og_gameRef := None\<rparr>, r)
               | Some val \<Rightarrow>
                   (let ps = (case players val of None \<Rightarrow> noPlayers | Some p \<Rightarrow> p);
                        whiteTaken = taken (white_player ps);
                        blackTaken = taken (black_player ps)
                    in if whiteTaken \<and> blackTaken
                       then (s0\<lparr>og_statusText := ''This game already has two players.'',
                                og_gameRef := None\<rparr>, r)
                       else if whiteTaken \<and> \<not> blackTaken
                       then (joined J black (s0\<lparr>og_role := Some black\<rparr>),
                             update r (og_code s)
                               (noDoc\<lparr>status := Some live,
                                      players := Some (ps\<lparr>black_player := Some (og_clientId s)\<rparr>)\<rparr>))
                       else if \<not> whiteTaken
                       then (joined J white (s0\<lparr>og_role := Some white\<rparr>),
                             update r (og_code s)
                               (noDoc\<lparr>status := Some waiting,
                                      players := Some (ps\<lparr>white_player := Some (og_clientId s)\<rparr>)\<rparr>))
                       else (s0\<lparr>og_statusText := ''Unable to join right now.'',
                                og_gameRef := None\<rparr>, r))))"

definition online_onUserMove :: "'c rules \<Rightarrow> 'c online \<times> remote \<Rightarrow> 'c online \<times> remote" where
  "online_onUserMove E sr =
     (let s = fst sr; r = snd sr
      in if og_applyingRemote s then (s, r)
         else case og_gameRef s of
           None \<Rightarrow> (s, r)
         | Some gameRef \<Rightarrow>
            (if og_role s = None then (s, r)
             else if \<not> og_bothJoined s \<or> og_moveDisabled s then (s, r)
             else
              (let fenAfter = getFEN (og_board s)
               in case chess_load E (og_chess s) fenAfter of
                 None \<Rightarrow>
                   (let s1 = s\<lparr>og_applyingRemote := True\<rparr>;
                        s2 = s1\<lparr>og_board := setFEN (chess_fen E (og_chess s1)) (og_board s1)\<rparr>;
                        s3 = orientForRole (s2\<lparr>og_isReversed := False\<rparr>)
                    in (s3\<lparr>og_applyingRemote := False\<rparr>, r))
               | Some c \<Rightarrow>
                   (let s1 = s\<lparr>og_chess := c\<rparr>;
                        pgnText = chess_pgn E (og_chess s1);
                        nextTurn = chess_turn E (og_chess s1)
                    in if chess_isCheckmate E (og_chess s1)
                       then (let w = winnerOf nextTurn
                             in (handleGameOver w s1,
                                 update r gameRef
                                   (noDoc\<lparr>fen := Some fenAfter, pgn := Some pgnText,
                                          turn := Some nextTurn, status := Some ended,
                                          winner := Some w\<rparr>)))
                       else (s1\<lparr>og_moveDisabled := True\<rparr>,
                             update r gameRef
                               (noDoc\<lparr>fen := Some fenAfter, pgn := Some pgnText,
                                      turn := Some nextTurn, status := Some live\<rparr>))))))"

section \<open>Concrete collaborators and states\<close>

text \<open>
  The positions of the shortest game of chess: the position before Black's second move
  and the position after it, in which White is checkmated.
\<close>

definition fenPreMate :: string where
  "fenPreMate = ''rnbqkbnr/pppp1ppp/8/4p3/6P1/5P2/PPPPP2P/RNBQKBNR b KQkq - 0 2''"

definition fenMate :: string where
  "fenMate = ''rnb1kbnr/pppp1ppp/8/4p3/6Pq/5P2/PPPPP2P/RNBQKBNR w KQkq - 1 3''"

text \<open>The side to move is the second field of a position: the letter after the first blank.\<close>

definition sideToMove :: "string \<Rightarrow> Turn" where
  "sideToMove f =
     (case dropWhile (\<lambda>x. x \<noteq> CHR '' '') f of
        _ # x # _ \<Rightarrow> (if x = CHR ''b'' then turn_b else turn_w)
      | _ \<Rightarrow> turn_w)"

text \<open>
  A rules engine that knows three positions and answers on them as chess.js does: it
  holds the position it loaded, refuses every other text, reads the side to move off
  the position and reports checkmate in the mated position only.
\<close>

definition miniChess :: "string rules" where
  "miniChess =
     \<lparr>chess_new = startFEN,
      chess_load = (\<lambda>c f. if f \<in> set [startFEN, fenPreMate, fenMate] then Some f else None),
      chess_turn = sideToMove,
      chess_isCheckmate = (\<lambda>c. c = fenMate),
      chess_fen = (\<lambda>c. c),
      chess_pgn = (\<lambda>c. [])\<rparr>"

text \<open>
  A JSON codec for the host's saved state \<^verbatim>\<open>{fen}\<close>; positions hold no character that
  JSON escapes.
\<close>

definition fenOpen :: string where
  "fenOpen = [CHR ''{'', CHR 0x22] @ ''fen'' @ [CHR 0x22, CHR '':'', CHR 0x22]"

definition fenClose :: string where
  "fenClose = [CHR 0x22, CHR ''}'']"

definition fenJson :: "SavedState json" where
  "fenJson =
     \<lparr>stringify = (\<lambda>st. Some (fenOpen @ saved_fen st @ fenClose)),
      parse = (\<lambda>raw.
        (let n = length raw; body = take (n - 10) (drop 8 raw)
         in if 10 \<le> n \<and> take 8 raw = fenOpen \<and> drop (n - 2) raw = fenClose
               \<and> CHR 0x22 \<notin> set body \<and> CHR 0x5C \<notin> set body
            then Some (SavedState body) else None))\<rparr>"

definition emptyStore :: local_storage where
  "emptyStore = \<lparr>items = Map.empty, fault = NoFault\<rparr>"

definition fullStore :: local_storage where
  "fullStore = \<lparr>items = Map.empty, fault = QuotaExceeded\<rparr>"

definition appOrigin :: string where
  "appOrigin = ''http://localhost:4200''"

text \<open>A host whose frames hold the windows 1 and 2, at the start and one move before mate.\<close>

definition hostFresh :: "(string, nat) host" where
  "hostFresh =
     \<lparr>chess = startFEN, currentTurnText = [], overlayVisible = False, overlayText = [],
      origin = appOrigin, window1 = Some 1, window2 = Some 2, storage = emptyStore, sent = []\<rparr>"

definition hostPreMate :: "(string, nat) host" where
  "hostPreMate = hostFresh\<lparr>chess := fenPreMate\<rparr>"

definition report :: "nat \<Rightarrow> WireMessage \<Rightarrow> nat message_event" where
  "report w m = \<lparr>ev_origin = appOrigin, ev_source = Some w, ev_data = Some m\<rparr>"

text \<open>Black's window reports the mating move; \<open>hostMated\<close> is the host after it.\<close>

definition mateReport :: "nat message_event" where
  "mateReport = report 2 (BOARD_UPDATE fenMate)"

definition hostMated :: "(string, nat) host" where
  "hostMated = host_onMessage miniChess fenJson hostPreMate mateReport"

definition fromParent :: "WireMessage \<Rightarrow> embed_event" where
  "fromParent m = \<lparr>msg_origin = appOrigin, msg_data = Some m\<rparr>"

text \<open>A child as it is created, and a child that has been told it plays Black.\<close>

definition childFresh :: embed where
  "childFresh =
     \<lparr>role = None, moveDisabled = True, applyingRemote = False, isReversed = False,
      board = \<lparr>shown = startFEN, reversed = False, flips = 0\<rparr>, location_origin = appOrigin,
      posted = []\<rparr>"

definition childBlack :: embed where
  "childBlack = embed_onMessage childFresh (fromParent (ROLE_ASSIGN black))"

text \<open>
  An online player, Black, in a live room, whose board shows the position \<open>f\<close> after a
  drag; the engine still holds the position before Black's second move.
\<close>

definition playerBlack :: "string \<Rightarrow> string online" where
  "playerBlack f =
     \<lparr>og_code = ''ABC123'', og_statusText = [], og_overlayVisible = False, og_overlayText = [],
      og_chess = fenPreMate, og_role = Some black, og_applyingRemote = False,
      og_bothJoined = True, og_moveDisabled = False, og_isReversed = True,
      og_gameRef = Some ''ABC123'', og_unsub = Some ''ABC123'', og_clientId = ''guest'',
      og_board = \<lparr>shown = f, reversed = True, flips = 1\<rparr>, og_storage = emptyStore\<rparr>"

definition liveRoom :: remote where
  "liveRoom =
     \<lparr>docs = [''ABC123'' \<mapsto>
               \<lparr>fen = Some fenPreMate, pgn = None, turn = Some turn_b, status = Some live,
                winner = None,
                players = Some \<lparr>white_player = Some ''host'', black_player = Some ''guest''\<rparr>\<rparr>],
      writes = []\<rparr>"

text \<open>
  A room whose creator has left while the guest stayed: the white slot is free, the black
  slot is held. And a newcomer who has typed the room's code.
\<close>

definition vacatedRoom :: remote where
  "vacatedRoom =
     \<lparr>docs = [''ABC123'' \<mapsto>
               \<lparr>fen = Some startFEN, pgn = None, turn = Some turn_w, status = Some waiting,
                winner = None,
                players = Some \<lparr>white_player = None, black_player = Some ''guest''\<rparr>\<rparr>],
      writes = []\<rparr>"

definition newcomer :: "string online" where
  "newcomer =
     \<lparr>og_code = ''ABC123'', og_statusText = ''Create a game or join one.'',
      og_overlayVisible = False, og_overlayText = [],
      og_chess = startFEN, og_role = None, og_applyingRemote = False,
      og_bothJoined = False, og_moveDisabled = True, og_isReversed = False,
      og_gameRef = None, og_unsub = None, og_clientId = ''newcomer'',
      og_board = \<lparr>shown = startFEN, reversed = False, flips = 0\<rparr>, og_storage = emptyStore\<rparr>"

section \<open>Auxiliary facts\<close>

lemmas store_defs = load_def save_def clear_def getItem_def setItem_def removeItem_def

lemmas mini_defs = miniChess_def sideToMove_def fenPreMate_def fenMate_def startFEN_def

lemmas host_state_defs = hostPreMate_def hostFresh_def report_def appOrigin_def

lemma fenJson_roundtrip:
  "parse fenJson (fenOpen @ startFEN @ fenClose) = Some (SavedState startFEN)"
  by (simp add: fenJson_def fenOpen_def fenClose_def startFEN_def)

lemma fenJson_text:
  "stringify fenJson (SavedState f) = Some (fenOpen @ f @ fenClose)"
  by (simp add: fenJson_def)

lemma not_from_turn_window:
  "\<not> isFromCurrentTurn E h w \<Longrightarrow> onBoardUpdate E J h w f = h"
  by (simp add: onBoardUpdate_def)

lemma rejected_position:
  "chess_load E (chess h) f = None \<Longrightarrow> onBoardUpdate E J h w f = h"
  by (simp add: onBoardUpdate_def)

lemma board_update_dispatch:
  "ev_data ev = Some (BOARD_UPDATE f) \<Longrightarrow>
   host_onMessage E J h ev =
     (if ev_origin ev \<noteq> origin h then h
      else case ev_source ev of None \<Rightarrow> h | Some w \<Rightarrow> onBoardUpdate E J h w f)"
  by (simp add: host_onMessage_def split: option.splits)

lemma preMate_turn_window: "currentTurnWindow miniChess hostPreMate = Some 2"
  by (simp add: currentTurnWindow_def mini_defs host_state_defs)

lemma sent_postTo:
  "sent (postTo target m h) = sent h @ (case target of None \<Rightarrow> [] | Some t \<Rightarrow> [(t, m)])"
  by (simp add: postTo_def split: option.splits)

lemma sent_postToBoth: "sent (postToBoth m h) = sent h @ map (\<lambda>t. (t, m)) (frames h)"
  by (simp add: postToBoth_def postTo_def frames_def split: option.splits)

lemma postTo_fields [simp]:
  "chess (postTo target m h) = chess h"
  "storage (postTo target m h) = storage h"
  "window1 (postTo target m h) = window1 h"
  "window2 (postTo target m h) = window2 h"
  "origin (postTo target m h) = origin h"
  by (simp_all add: postTo_def split: option.splits)

lemma postToBoth_fields [simp]:
  "chess (postToBoth m h) = chess h"
  "storage (postToBoth m h) = storage h"
  "window1 (postToBoth m h) = window1 h"
  "window2 (postToBoth m h) = window2 h"
  "origin (postToBoth m h) = origin h"
  by (simp_all add: postToBoth_def)

lemma frames_fields [simp]:
  "frames (h\<lparr>chess := c\<rparr>) = frames h"
  "frames (h\<lparr>storage := st\<rparr>) = frames h"
  "frames (h\<lparr>currentTurnText := tx\<rparr>) = frames h"
  "frames (h\<lparr>sent := ms\<rparr>) = frames h"
  by (simp_all add: frames_def)

lemma frames_postTo [simp]: "frames (postTo target m h) = frames h"
  by (simp add: frames_def)

lemma accepted_checkmate:
  assumes "ev_origin ev = origin h" and "ev_source ev = Some w"
    and "ev_data ev = Some (BOARD_UPDATE f)" and "isFromCurrentTurn E h w"
    and "chess_load E (chess h) f = Some c" and "chess_isCheckmate E c"
  shows "host_onMessage E J h ev =
           (postToBoth (GAME_OVER (winnerOf (chess_turn E c)) checkmate)
              (h\<lparr>chess := c, storage := save J offline_key (SavedState f) (storage h)\<rparr>))
           \<lparr>overlayText := toUpperCase (winnerOf (chess_turn E c)) @ '' wins by checkmate'',
            overlayVisible := True\<rparr>"
  using assms by (simp add: board_update_dispatch onBoardUpdate_def Let_def)

lemma accepted_checkmate_sent:
  assumes "ev_origin ev = origin h" and "ev_source ev = Some w"
    and "ev_data ev = Some (BOARD_UPDATE f)" and "isFromCurrentTurn E h w"
    and "chess_load E (chess h) f = Some c" and "chess_isCheckmate E c"
  shows "sent (host_onMessage E J h ev) =
           sent h @ map (\<lambda>t. (t, GAME_OVER (winnerOf (chess_turn E c)) checkmate)) (frames h)"
  by (simp add: accepted_checkmate [OF assms] sent_postToBoth)

lemma accepted_checkmate_chess:
  assumes "ev_origin ev = origin h" and "ev_source ev = Some w"
    and "ev_data ev = Some (BOARD_UPDATE f)" and "isFromCurrentTurn E h w"
    and "chess_load E (chess h) f = Some c" and "chess_isCheckmate E c"
  shows "chess (host_onMessage E J h ev) = c"
  by (simp add: accepted_checkmate [OF assms])

lemma ineffective_report:
  assumes "ev_data e = Some (BOARD_UPDATE f)"
    and "ev_source e = None \<or> ev_source e \<noteq> currentTurnWindow E h \<or> chess_load E (chess h) f = None"
  shows "host_onMessage E J h e = h"
proof (cases "ev_source e")
  case None
  then show ?thesis by (simp add: host_onMessage_def)
next
  case (Some w)
  with assms(2) have "\<not> isFromCurrentTurn E h w \<or> chess_load E (chess h) f = None"
    by (auto simp: isFromCurrentTurn_def)
  then show ?thesis
    using assms(1) Some
    by (auto simp: board_update_dispatch not_from_turn_window rejected_position)
qed

lemma ineffective_reports:
  assumes "\<forall>e \<in> set evs. \<exists>f. ev_data e = Some (BOARD_UPDATE f)
             \<and> (ev_source e = None \<or> ev_source e \<noteq> currentTurnWindow E h
                \<or> chess_load E (chess h) f = None)"
  shows "foldl (host_onMessage E J) h evs = h"
  using assms
proof (induction evs)
  case Nil
  then show ?case by simp
next
  case (Cons e evs)
  then obtain f where "ev_data e = Some (BOARD_UPDATE f)"
    and "ev_source e = None \<or> ev_source e \<noteq> currentTurnWindow E h \<or> chess_load E (chess h) f = None"
    by auto
  then have "host_onMessage E J h e = h" by (rule ineffective_report)
  with Cons show ?case by simp
qed

lemma game_over_freezes:
  assumes "msg_origin g = location_origin k" and "msg_data g = Some (GAME_OVER wn rs)"
  shows "moveDisabled (embed_onMessage k g) \<and> darkDisabled (embed_onMessage k g)
         \<and> lightDisabled (embed_onMessage k g)"
  using assms by (simp add: embed_onMessage_def darkDisabled_def lightDisabled_def)

lemma mate_accepted:
  "ev_origin mateReport = origin hostPreMate" "ev_source mateReport = Some 2"
  "ev_data mateReport = Some (BOARD_UPDATE fenMate)" "isFromCurrentTurn miniChess hostPreMate 2"
  "chess_load miniChess (chess hostPreMate) fenMate = Some fenMate"
  "chess_isCheckmate miniChess fenMate"
  by (simp_all add: mateReport_def isFromCurrentTurn_def preMate_turn_window)
     (simp_all add: mini_defs host_state_defs)

lemma hostMated_chess: "chess hostMated = fenMate"
  unfolding hostMated_def by (rule accepted_checkmate_chess [OF mate_accepted])

lemma hostMated_windows: "window1 hostMated = Some 1" "window2 hostMated = Some 2"
  "origin hostMated = appOrigin"
  unfolding hostMated_def
  by (simp_all add: accepted_checkmate [OF mate_accepted]) (simp_all add: host_state_defs)

lemma hostMated_turn_window: "currentTurnWindow miniChess hostMated = Some 1"
  by (simp add: currentTurnWindow_def hostMated_chess hostMated_windows) (simp add: mini_defs)

lemma childBlack_facts:
  "role childBlack = Some black" "location_origin childBlack = appOrigin"
  "moveDisabled childBlack" "isReversed childBlack" "reversed (board childBlack)"
  "flips (board childBlack) = 1"
  by (simp_all add: childBlack_def childFresh_def fromParent_def embed_onMessage_def
        ensureOrientation_def reverse_def Let_def)

lemma embed_inv_fresh: "embed_inv childFresh"
  by (simp add: embed_inv_def childFresh_def)

lemma embed_inv_onMessage: "embed_inv k \<Longrightarrow> embed_inv (embed_onMessage k g)"
proof (cases "msg_data g")
  case None
  then show "embed_inv k \<Longrightarrow> ?thesis" by (simp add: embed_onMessage_def)
next
  case (Some m)
  then show "embed_inv k \<Longrightarrow> ?thesis"
    by (cases m)
       (auto simp: embed_inv_def embed_onMessage_def ensureOrientation_def setFEN_def reset_def
          reverse_def Let_def split: option.splits)
qed

lemma embed_inv_onUserMove: "embed_inv k \<Longrightarrow> embed_inv (embed_onUserMove k)"
  by (simp add: embed_inv_def embed_onUserMove_def)

section \<open>Local Sync Host: reports that are not accepted\<close>

text \<open>
  Claim C1. A \<^verbatim>\<open>BOARD_UPDATE\<close> whose sender is not the window of the side to move (or
  that has no sender window) leaves the host as it was: the position of the rules engine,
  the browser storage and the list of posted messages are those of before, as is every
  other field.
\<close>

theorem out_of_turn_report_ignored:
  assumes "ev_data ev = Some (BOARD_UPDATE f)"
    and "ev_source ev = None \<or> ev_source ev \<noteq> currentTurnWindow E h"
  shows "host_onMessage E J h ev = h"
proof (cases "ev_source ev")
  case None
  then show ?thesis by (simp add: host_onMessage_def)
next
  case (Some w)
  with assms(2) have "\<not> isFromCurrentTurn E h w"
    by (auto simp: isFromCurrentTurn_def)
  then show ?thesis
    using assms(1) Some by (simp add: board_update_dispatch not_from_turn_window)
qed

text \<open>
  One move before mate it is Black's turn, whose window is window 2. Window 1 reports the
  mated position, which the engine would accept; the host stays as it was.
\<close>

theorem out_of_turn_report_ignored_witness:
  "ev_data (report 1 (BOARD_UPDATE fenMate)) = Some (BOARD_UPDATE fenMate)
   \<and> ev_source (report 1 (BOARD_UPDATE fenMate)) = Some 1
   \<and> currentTurnWindow miniChess hostPreMate = Some 2
   \<and> chess_load miniChess (chess hostPreMate) fenMate = Some fenMate
   \<and> host_onMessage miniChess fenJson hostPreMate (report 1 (BOARD_UPDATE fenMate)) = hostPreMate"
proof -
  have a: "ev_data (report 1 (BOARD_UPDATE fenMate)) = Some (BOARD_UPDATE fenMate)"
    by (simp add: report_def)
  have b: "ev_source (report 1 (BOARD_UPDATE fenMate)) = Some 1"
    by (simp add: report_def)
  note c = preMate_turn_window
  have d: "chess_load miniChess (chess hostPreMate) fenMate = Some fenMate"
    by (simp add: mini_defs host_state_defs)
  have e: "ev_source (report 1 (BOARD_UPDATE fenMate)) = None
           \<or> ev_source (report 1 (BOARD_UPDATE fenMate)) \<noteq> currentTurnWindow miniChess hostPreMate"
    by (simp add: report_def c)
  from out_of_turn_report_ignored [OF a e, of fenJson] a b c d show ?thesis by simp
qed

text \<open>
  Claim C2. A \<^verbatim>\<open>BOARD_UPDATE\<close> that carries a position on which the engine's \<^verbatim>\<open>load\<close>
  throws leaves the host as it was, whoever sent it: nothing is written to the browser
  storage and nothing is posted.
\<close>

theorem rejected_report_ignored:
  assumes "ev_data ev = Some (BOARD_UPDATE f)"
    and "chess_load E (chess h) f = None"
  shows "host_onMessage E J h ev = h"
  using assms by (simp add: board_update_dispatch rejected_position split: option.splits)

text \<open>Black's window reports, in Black's turn, a position without kings.\<close>

theorem rejected_report_ignored_witness:
  "ev_data (report 2 (BOARD_UPDATE ''8/8/8/8/8/8/8/8 w - - 0 1''))
     = Some (BOARD_UPDATE ''8/8/8/8/8/8/8/8 w - - 0 1'')
   \<and> isFromCurrentTurn miniChess hostPreMate 2
   \<and> chess_load miniChess (chess hostPreMate) ''8/8/8/8/8/8/8/8 w - - 0 1'' = None
   \<and> host_onMessage miniChess fenJson hostPreMate
        (report 2 (BOARD_UPDATE ''8/8/8/8/8/8/8/8 w - - 0 1'')) = hostPreMate"
proof -
  have a: "ev_data (report 2 (BOARD_UPDATE ''8/8/8/8/8/8/8/8 w - - 0 1''))
             = Some (BOARD_UPDATE ''8/8/8/8/8/8/8/8 w - - 0 1'')"
    by (simp add: report_def)
  have b: "isFromCurrentTurn miniChess hostPreMate 2"
    by (simp add: isFromCurrentTurn_def preMate_turn_window)
  have c: "chess_load miniChess (chess hostPreMate) ''8/8/8/8/8/8/8/8 w - - 0 1'' = None"
    by (simp add: mini_defs host_state_defs)
  from rejected_report_ignored [OF a c, of fenJson] a b c show ?thesis by simp
qed

section \<open>Local Sync Host: checkmate\<close>

text \<open>
  Claim C3, as amended. When an accepted \<^verbatim>\<open>BOARD_UPDATE\<close> yields a checkmate position, the
  host holds that position and posts \<^verbatim>\<open>GAME_OVER\<close> to every frame. From then on, any
  sequence of \<^verbatim>\<open>BOARD_UPDATE\<close> reports each of which comes from a window other than the
  mated side's, or carries a position the engine rejects, leaves the host as it was:
  position, browser storage and posted messages. A child that handles \<^verbatim>\<open>GAME_OVER\<close> has
  its moves disabled, and the pieces of both colours cannot be dragged. The host keeps no
  game-over gate of its own.
\<close>

theorem frozen_after_checkmate:
  assumes "ev_origin ev = origin h" and "ev_source ev = Some w"
    and "ev_data ev = Some (BOARD_UPDATE f)" and "isFromCurrentTurn E h w"
    and "chess_load E (chess h) f = Some c" and "chess_isCheckmate E c"
    and "\<forall>e \<in> set evs. \<exists>f'. ev_data e = Some (BOARD_UPDATE f')
           \<and> (ev_source e = None
              \<or> ev_source e \<noteq> currentTurnWindow E (host_onMessage E J h ev)
              \<or> chess_load E c f' = None)"
    and "msg_origin g = location_origin k" and "msg_data g = Some (GAME_OVER wn checkmate)"
  shows "chess (host_onMessage E J h ev) = c
         \<and> sent (host_onMessage E J h ev)
             = sent h @ map (\<lambda>t. (t, GAME_OVER (winnerOf (chess_turn E c)) checkmate)) (frames h)
         \<and> foldl (host_onMessage E J) (host_onMessage E J h ev) evs = host_onMessage E J h ev
         \<and> moveDisabled (embed_onMessage k g)
         \<and> darkDisabled (embed_onMessage k g) \<and> lightDisabled (embed_onMessage k g)"
proof -
  note acc = assms(1-6)
  have pos: "chess (host_onMessage E J h ev) = c"
    by (rule accepted_checkmate_chess [OF acc])
  have out: "sent (host_onMessage E J h ev)
      = sent h @ map (\<lambda>t. (t, GAME_OVER (winnerOf (chess_turn E c)) checkmate)) (frames h)"
    by (rule accepted_checkmate_sent [OF acc])
  have later: "foldl (host_onMessage E J) (host_onMessage E J h ev) evs = host_onMessage E J h ev"
    by (rule ineffective_reports) (use assms(7) pos in simp)
  from pos out later game_over_freezes [OF assms(8,9)] show ?thesis by simp
qed


text \<open>
  After the mating report, White is to move. A report from Black's window with the start
  position and one from White's window with a position without kings leave the mated host
  as it was.
\<close>

theorem frozen_after_checkmate_witness:
  "chess hostMated = fenMate
   \<and> sent hostMated = [(1, GAME_OVER black checkmate), (2, GAME_OVER black checkmate)]
   \<and> currentTurnWindow miniChess hostMated = Some 1
   \<and> chess_load miniChess fenMate startFEN = Some startFEN
   \<and> chess_load miniChess fenMate ''8/8/8/8/8/8/8/8 w - - 0 1'' = None
   \<and> foldl (host_onMessage miniChess fenJson) hostMated
        [report 2 (BOARD_UPDATE startFEN), report 1 (BOARD_UPDATE ''8/8/8/8/8/8/8/8 w - - 0 1'')]
       = hostMated
   \<and> moveDisabled (embed_onMessage childBlack (fromParent (GAME_OVER black checkmate)))
   \<and> darkDisabled (embed_onMessage childBlack (fromParent (GAME_OVER black checkmate)))
   \<and> lightDisabled (embed_onMessage childBlack (fromParent (GAME_OVER black checkmate)))"
proof -
  have tw: "currentTurnWindow miniChess (host_onMessage miniChess fenJson hostPreMate mateReport) = Some 1"
    using hostMated_turn_window by (simp add: hostMated_def)
  have ok: "chess_load miniChess fenMate startFEN = Some startFEN"
    by (simp add: mini_defs)
  have no: "chess_load miniChess fenMate ''8/8/8/8/8/8/8/8 w - - 0 1'' = None"
    by (simp add: mini_defs)
  have later: "\<forall>e \<in> set [report 2 (BOARD_UPDATE startFEN),
                          report 1 (BOARD_UPDATE ''8/8/8/8/8/8/8/8 w - - 0 1'')].
      \<exists>f'. ev_data e = Some (BOARD_UPDATE f')
        \<and> (ev_source e = None
           \<or> ev_source e \<noteq> currentTurnWindow miniChess
                (host_onMessage miniChess fenJson hostPreMate mateReport)
           \<or> chess_load miniChess fenMate f' = None)"
    by (simp add: tw no report_def)
  have g1: "msg_origin (fromParent (GAME_OVER black checkmate)) = location_origin childBlack"
    by (simp add: fromParent_def childBlack_def childFresh_def embed_onMessage_def
          ensureOrientation_def Let_def)
  have g2: "msg_data (fromParent (GAME_OVER black checkmate)) = Some (GAME_OVER black checkmate)"
    by (simp add: fromParent_def)
  from frozen_after_checkmate [OF mate_accepted later g1 g2]
  show ?thesis
    using tw ok no
    by (simp add: hostMated_def [symmetric] frames_def winnerOf_def)
       (simp add: mini_defs host_state_defs)
qed

text \<open>
  The claim as stated fails for a report from the mated side's window that carries a
  position the engine accepts: the host loads it, saves it and posts the new state.
\<close>

theorem report_after_checkmate_counterexample:
  "sent hostMated = [(1, GAME_OVER black checkmate), (2, GAME_OVER black checkmate)]
   \<and> chess_isCheckmate miniChess (chess hostMated)
   \<and> chess (host_onMessage miniChess fenJson hostMated (report 1 (BOARD_UPDATE startFEN)))
       = startFEN
   \<and> chess hostMated \<noteq> startFEN
   \<and> items (storage (host_onMessage miniChess fenJson hostMated (report 1 (BOARD_UPDATE startFEN))))
        offline_key = Some (fenOpen @ startFEN @ fenClose)
   \<and> items (storage hostMated) offline_key = Some (fenOpen @ fenMate @ fenClose)
   \<and> sent (host_onMessage miniChess fenJson hostMated (report 1 (BOARD_UPDATE startFEN)))
       = sent hostMated @ [(2, SYNC_STATE startFEN None), (1, TURN turn_w), (2, TURN turn_w)]"
  by (simp add: hostMated_def mateReport_def host_onMessage_def onBoardUpdate_def
        isFromCurrentTurn_def currentTurnWindow_def otherWindow_def broadcastTurn_def
        postToBoth_def postTo_def winnerOf_def Let_def store_defs fenJson_def emptyStore_def
        offline_key_def mini_defs host_state_defs)

lemma winnerOf_iff: "(winnerOf t = black) = (t = turn_w)" "(winnerOf t = white) = (t = turn_b)"
  by (cases t; simp add: winnerOf_def)+

lemma online_checkmate_move:
  assumes "\<not> og_applyingRemote s" and "og_gameRef s = Some g" and "og_role s = Some rl"
    and "og_bothJoined s" and "\<not> og_moveDisabled s"
    and "chess_load E (og_chess s) (getFEN (og_board s)) = Some c"
    and "chess_isCheckmate E c"
  shows "online_onUserMove E (s, r) =
           (handleGameOver (winnerOf (chess_turn E c)) (s\<lparr>og_chess := c\<rparr>),
            update r g
              (noDoc\<lparr>fen := Some (getFEN (og_board s)), pgn := Some (chess_pgn E c),
                     turn := Some (chess_turn E c), status := Some ended,
                     winner := Some (winnerOf (chess_turn E c))\<rparr>))"
  using assms by (simp add: online_onUserMove_def Let_def)

lemma writes_update: "writes (update r g v) = writes r @ [(g, v)]"
  by (simp add: update_def)

text \<open>
  Claim C4. When a reported position is accepted and is checkmate, the winner that is
  recorded is the side that is not to move in it: \<open>black\<close> exactly when the engine reports
  White to move, \<open>white\<close> exactly when it reports Black to move. The host posts
  \<^verbatim>\<open>GAME_OVER\<close> with that winner to every frame; the online component writes status
  \<^verbatim>\<open>ended\<close> with that winner to the room.
\<close>

theorem checkmate_winner:
  assumes "ev_origin ev = origin h" and "ev_source ev = Some w"
    and "ev_data ev = Some (BOARD_UPDATE f)" and "isFromCurrentTurn E h w"
    and "chess_load E (chess h) f = Some c" and "chess_isCheckmate E c"
    and "\<not> og_applyingRemote s" and "og_gameRef s = Some g" and "og_role s = Some rl"
    and "og_bothJoined s" and "\<not> og_moveDisabled s"
    and "chess_load E (og_chess s) (getFEN (og_board s)) = Some c'"
    and "chess_isCheckmate E c'"
  shows "sent (host_onMessage E J h ev)
           = sent h @ map (\<lambda>t. (t, GAME_OVER (winnerOf (chess_turn E c)) checkmate)) (frames h)
         \<and> writes (snd (online_onUserMove E (s, r)))
           = writes r @
             [(g, noDoc\<lparr>fen := Some (getFEN (og_board s)), pgn := Some (chess_pgn E c'),
                         turn := Some (chess_turn E c'), status := Some ended,
                         winner := Some (winnerOf (chess_turn E c'))\<rparr>)]
         \<and> (winnerOf (chess_turn E c) = black) = (chess_turn E c = turn_w)
         \<and> (winnerOf (chess_turn E c) = white) = (chess_turn E c = turn_b)
         \<and> (winnerOf (chess_turn E c') = black) = (chess_turn E c' = turn_w)
         \<and> (winnerOf (chess_turn E c') = white) = (chess_turn E c' = turn_b)"
  by (simp add: accepted_checkmate_sent [OF assms(1-6)] online_checkmate_move [OF assms(7-13)]
        writes_update winnerOf_iff)

lemma playerBlack_gate:
  "\<not> og_applyingRemote (playerBlack f)" "og_gameRef (playerBlack f) = Some ''ABC123''"
  "og_role (playerBlack f) = Some black" "og_bothJoined (playerBlack f)"
  "\<not> og_moveDisabled (playerBlack f)"
  "og_chess (playerBlack f) = fenPreMate" "getFEN (og_board (playerBlack f)) = f"
  "flips (og_board (playerBlack f)) = 1"
  by (simp_all add: playerBlack_def getFEN_def)

text \<open>
  Black mates: offline the report comes from Black's window, online Black has dragged the
  queen. White is to move in the mated position and Black is recorded as the winner.
\<close>

theorem checkmate_winner_witness:
  "chess_turn miniChess fenMate = turn_w
   \<and> sent (host_onMessage miniChess fenJson hostPreMate mateReport)
       = [(1, GAME_OVER black checkmate), (2, GAME_OVER black checkmate)]
   \<and> writes (snd (online_onUserMove miniChess (playerBlack fenMate, liveRoom)))
       = [(''ABC123'',
           \<lparr>fen = Some fenMate, pgn = Some [], turn = Some turn_w, status = Some ended,
            winner = Some black, players = None\<rparr>)]"
proof -
  have ld: "chess_load miniChess (og_chess (playerBlack fenMate))
              (getFEN (og_board (playerBlack fenMate))) = Some fenMate"
    by (simp add: playerBlack_gate) (simp add: mini_defs)
  have tn: "chess_turn miniChess fenMate = turn_w"
    by (simp add: mini_defs)
  from checkmate_winner [OF mate_accepted playerBlack_gate(1-5) ld mate_accepted(6),
      of fenJson liveRoom]
  show ?thesis
    using tn
    by (simp add: playerBlack_gate frames_def winnerOf_def noDoc_def liveRoom_def)
       (simp add: mini_defs host_state_defs)
qed

section \<open>Local Sync Host: role assignment\<close>

lemma sent_broadcastTurn:
  "sent (broadcastTurn E h) = sent h @ map (\<lambda>t. (t, TURN (chess_turn E (chess h)))) (frames h)"
  by (simp add: broadcastTurn_def Let_def sent_postToBoth)

lemma broadcastTurn_fields [simp]:
  "chess (broadcastTurn E h) = chess h"
  "storage (broadcastTurn E h) = storage h"
  "window1 (broadcastTurn E h) = window1 h"
  "window2 (broadcastTurn E h) = window2 h"
  "origin (broadcastTurn E h) = origin h"
  by (simp_all add: broadcastTurn_def Let_def)

lemma ready_dispatch:
  assumes "ev_origin ev = origin h" and "ev_source ev = Some w" and "ev_data ev = Some IFRAME_READY"
  shows "host_onMessage E J h ev =
           broadcastTurn E (syncStateTo E w
             (postTo (Some w) (ROLE_ASSIGN (if Some w = window1 h then white else black)) h))"
  using assms by (simp add: host_onMessage_def Let_def)

lemma role_assign_orients:
  assumes "msg_origin g = location_origin k" and "msg_data g = Some (ROLE_ASSIGN r)"
    and "isReversed k = reversed (board k)"
  shows "role (embed_onMessage k g) = Some r
         \<and> reversed (board (embed_onMessage k g)) = (r = black)
         \<and> isReversed (embed_onMessage k g) = (r = black)"
  using assms
  by (cases r) (auto simp: embed_onMessage_def ensureOrientation_def reverse_def Let_def)

text \<open>
  Claim C7, as amended. The role depends on the frame, not on the order of the
  announcements: an \<^verbatim>\<open>IFRAME_READY\<close> from the window of the first frame is answered with
  \<^verbatim>\<open>ROLE_ASSIGN white\<close>, one from any other window with \<^verbatim>\<open>ROLE_ASSIGN black\<close>. Each
  \<^verbatim>\<open>IFRAME_READY\<close> is answered with exactly one \<^verbatim>\<open>ROLE_ASSIGN\<close>, followed by the position
  for the sender and the turn for every frame; the frames' windows stay as they were, so a
  repeated announcement gets the same role. A child whose orientation flag agrees with its
  board and that handles this \<^verbatim>\<open>ROLE_ASSIGN\<close> shows its board reversed exactly when it is
  not in the first frame.
\<close>

theorem role_by_frame:
  assumes "ev_origin ev = origin h" and "ev_source ev = Some w" and "ev_data ev = Some IFRAME_READY"
    and "msg_origin g = location_origin k"
    and "msg_data g = Some (ROLE_ASSIGN (if Some w = window1 h then white else black))"
    and "isReversed k = reversed (board k)"
  shows "sent (host_onMessage E J h ev)
           = sent h
             @ [(w, ROLE_ASSIGN (if Some w = window1 h then white else black)),
                (w, SYNC_STATE (chess_fen E (chess h)) None)]
             @ map (\<lambda>t. (t, TURN (chess_turn E (chess h)))) (frames h)
         \<and> window1 (host_onMessage E J h ev) = window1 h
         \<and> window2 (host_onMessage E J h ev) = window2 h
         \<and> role (embed_onMessage k g) = Some (if Some w = window1 h then white else black)
         \<and> reversed (board (embed_onMessage k g)) = (Some w \<noteq> window1 h)"
proof -
  have "sent (host_onMessage E J h ev)
           = sent h
             @ [(w, ROLE_ASSIGN (if Some w = window1 h then white else black)),
                (w, SYNC_STATE (chess_fen E (chess h)) None)]
             @ map (\<lambda>t. (t, TURN (chess_turn E (chess h)))) (frames h)"
    by (simp add: ready_dispatch [OF assms(1-3)] sent_broadcastTurn syncStateTo_def sent_postTo)
  moreover have "window1 (host_onMessage E J h ev) = window1 h"
    "window2 (host_onMessage E J h ev) = window2 h"
    by (simp_all add: ready_dispatch [OF assms(1-3)] syncStateTo_def)
  moreover note role_assign_orients [OF assms(4-6)]
  ultimately show ?thesis by simp
qed

lemma ready_events:
  "ev_origin (report w IFRAME_READY) = origin hostFresh"
  "ev_source (report w IFRAME_READY) = Some w"
  "ev_data (report w IFRAME_READY) = Some IFRAME_READY"
  by (simp_all add: host_state_defs)

lemma childFresh_facts:
  "msg_origin (fromParent m) = location_origin childFresh"
  "msg_data (fromParent m) = Some m"
  "isReversed childFresh = reversed (board childFresh)"
  by (simp_all add: fromParent_def childFresh_def)

text \<open>
  The window of the second frame announces itself to a fresh host and is told to play
  Black; a fresh child that handles the assignment shows its board reversed.
\<close>

theorem role_by_frame_witness:
  "window1 hostFresh = Some 1
   \<and> sent (host_onMessage miniChess fenJson hostFresh (report 2 IFRAME_READY))
       = [(2, ROLE_ASSIGN black), (2, SYNC_STATE startFEN None), (1, TURN turn_w), (2, TURN turn_w)]
   \<and> role (embed_onMessage childFresh (fromParent (ROLE_ASSIGN black))) = Some black
   \<and> reversed (board (embed_onMessage childFresh (fromParent (ROLE_ASSIGN black))))"
proof -
  have w1: "window1 hostFresh = Some 1" by (simp add: hostFresh_def)
  have rl: "(if Some (2::nat) = window1 hostFresh then white else black) = black"
    by (simp add: w1)
  have g: "msg_data (fromParent (ROLE_ASSIGN black))
             = Some (ROLE_ASSIGN (if Some (2::nat) = window1 hostFresh then white else black))"
    by (simp add: rl childFresh_facts)
  from role_by_frame [OF ready_events childFresh_facts(1) g childFresh_facts(3),
      of miniChess fenJson]
  show ?thesis
    using w1 by (simp add: frames_def) (simp add: mini_defs host_state_defs)
qed

text \<open>
  The claim as stated fails when the second frame is ready first: the first child to
  announce readiness is assigned \<open>black\<close> and the second one \<open>white\<close>.
\<close>

theorem first_ready_black_counterexample:
  "sent (host_onMessage miniChess fenJson
           (host_onMessage miniChess fenJson hostFresh (report 2 IFRAME_READY))
           (report 1 IFRAME_READY))
     = [(2, ROLE_ASSIGN black), (2, SYNC_STATE startFEN None), (1, TURN turn_w), (2, TURN turn_w),
        (1, ROLE_ASSIGN white), (1, SYNC_STATE startFEN None), (1, TURN turn_w), (2, TURN turn_w)]"
  by (simp add: host_onMessage_def broadcastTurn_def syncStateTo_def postToBoth_def postTo_def
        Let_def mini_defs host_state_defs)

section \<open>Orientation\<close>

lemma ensureOrientation_settled:
  "isReversed k = (role k = Some black) \<Longrightarrow> ensureOrientation k = k"
  by (simp add: ensureOrientation_def)

lemma ensureOrientation_flag: "isReversed (ensureOrientation k) = (role k = Some black)"
  by (simp add: ensureOrientation_def Let_def)

lemma ensureOrientation_role: "role (ensureOrientation k) = role k"
  by (simp add: ensureOrientation_def Let_def)

lemma ensureOrientation_board:
  "isReversed k = reversed (board k) \<Longrightarrow>
   reversed (board (ensureOrientation k)) = (role k = Some black)"
  by (auto simp: ensureOrientation_def reverse_def Let_def)

lemma orientForRole_settled:
  "og_isReversed s = (og_role s = Some black) \<Longrightarrow> orientForRole s = s"
  by (simp add: orientForRole_def)

lemma orientForRole_flag: "og_isReversed (orientForRole s) = (og_role s = Some black)"
  by (simp add: orientForRole_def Let_def)

lemma orientForRole_role: "og_role (orientForRole s) = og_role s"
  by (simp add: orientForRole_def Let_def)

lemma orientForRole_board:
  "og_isReversed s = reversed (og_board s) \<Longrightarrow>
   reversed (og_board (orientForRole s)) = (og_role s = Some black)"
  by (auto simp: orientForRole_def reverse_def Let_def)

lemma role_assign_twice:
  "msg_data g = Some (ROLE_ASSIGN r) \<Longrightarrow>
   embed_onMessage (embed_onMessage k g) g = embed_onMessage k g"
  by (simp add: embed_onMessage_def ensureOrientation_def Let_def)

lemma sync_state_child:
  "msg_origin g = location_origin k \<Longrightarrow> msg_data g = Some (SYNC_STATE f p) \<Longrightarrow>
   embed_onMessage k g
     = k\<lparr>board := \<lparr>shown = f, reversed = (role k = Some black),
                    flips = flips (board k) + (if role k = Some black then 1 else 0)\<rparr>,
         isReversed := (role k = Some black), applyingRemote := False\<rparr>"
  by (cases k)
     (auto simp: embed_onMessage_def ensureOrientation_def setFEN_def reverse_def Let_def)

lemma sync_state_board:
  "msg_origin g = location_origin k \<Longrightarrow> msg_data g = Some (SYNC_STATE f p) \<Longrightarrow>
   board (embed_onMessage k g)
     = \<lparr>shown = f, reversed = (role k = Some black), flips = flips (board k) + (if role k = Some black then 1 else 0)\<rparr>"
  by (simp add: sync_state_child)

lemma sync_state_twice:
  assumes "msg_origin g = location_origin k" and "msg_data g = Some (SYNC_STATE f p)"
  shows "embed_onMessage (embed_onMessage k g) g
           = (embed_onMessage k g)
               \<lparr>board := (board (embed_onMessage k g))
                   \<lparr>flips := flips (board (embed_onMessage k g)) + (if role k = Some black then 1 else 0)\<rparr>\<rparr>"
proof -
  have o: "msg_origin g = location_origin (embed_onMessage k g)"
    using assms by (simp add: sync_state_child)
  show ?thesis
    by (simp add: sync_state_child [OF o assms(2)]) (simp add: sync_state_child [OF assms])
qed

text \<open>
  Claim C6, as amended. \<^verbatim>\<open>ensureOrientation\<close> and \<^verbatim>\<open>orientForRole\<close> are idempotent:
  applied a second time they change nothing, so the widget receives no further flip.
  Afterwards the orientation flag holds exactly when the role is Black, and so does the
  board's own orientation whenever the flag agreed with the board before. A
  \<^verbatim>\<open>ROLE_ASSIGN\<close> delivered a second time leaves the child as the first delivery left it.
  A \<^verbatim>\<open>SYNC_STATE\<close> overwrites the board, clears the flag and orients again: every
  delivery flips the widget once for Black and never for White, and leaves the board
  showing the given position, reversed exactly for Black. A second delivery therefore ends
  in the orientation of the first and changes nothing but the count of flips, which it
  raises by one for Black.
\<close>

theorem orientation_idempotent:
  "ensureOrientation (ensureOrientation k) = ensureOrientation k
   \<and> flips (board (ensureOrientation (ensureOrientation k))) = flips (board (ensureOrientation k))
   \<and> isReversed (ensureOrientation k) = (role k = Some black)
   \<and> (isReversed k = reversed (board k)
        \<longrightarrow> reversed (board (ensureOrientation k)) = (role k = Some black))
   \<and> orientForRole (orientForRole s) = orientForRole s
   \<and> flips (og_board (orientForRole (orientForRole s))) = flips (og_board (orientForRole s))
   \<and> og_isReversed (orientForRole s) = (og_role s = Some black)
   \<and> (og_isReversed s = reversed (og_board s)
        \<longrightarrow> reversed (og_board (orientForRole s)) = (og_role s = Some black))
   \<and> (msg_data g = Some (ROLE_ASSIGN r)
        \<longrightarrow> embed_onMessage (embed_onMessage k g) g = embed_onMessage k g)
   \<and> (msg_origin g = location_origin k \<and> msg_data g = Some (SYNC_STATE f p)
        \<longrightarrow> board (embed_onMessage k g)
              = \<lparr>shown = f, reversed = (role k = Some black),
                 flips = flips (board k) + (if role k = Some black then 1 else 0)\<rparr>
            \<and> embed_onMessage (embed_onMessage k g) g
              = (embed_onMessage k g)
                  \<lparr>board := (board (embed_onMessage k g))
                      \<lparr>flips := flips (board (embed_onMessage k g))
                                 + (if role k = Some black then 1 else 0)\<rparr>\<rparr>)"
proof -
  have e: "ensureOrientation (ensureOrientation k) = ensureOrientation k"
    by (rule ensureOrientation_settled) (simp add: ensureOrientation_flag ensureOrientation_role)
  have o: "orientForRole (orientForRole s) = orientForRole s"
    by (rule orientForRole_settled) (simp add: orientForRole_flag orientForRole_role)
  have y: "msg_origin g = location_origin k \<and> msg_data g = Some (SYNC_STATE f p)
        \<longrightarrow> board (embed_onMessage k g)
              = \<lparr>shown = f, reversed = (role k = Some black),
                 flips = flips (board k) + (if role k = Some black then 1 else 0)\<rparr>
            \<and> embed_onMessage (embed_onMessage k g) g
              = (embed_onMessage k g)
                  \<lparr>board := (board (embed_onMessage k g))
                      \<lparr>flips := flips (board (embed_onMessage k g))
                                 + (if role k = Some black then 1 else 0)\<rparr>\<rparr>"
    using sync_state_board [of g k f p] sync_state_twice [of g k f p]
    by simp
  from e o y show ?thesis
    using ensureOrientation_flag [of k] ensureOrientation_board [of k]
      orientForRole_flag [of s] orientForRole_board [of s] role_assign_twice [of g r k]
    by simp
qed

text \<open>
  A fresh child and a fresh online player that have just been given the role Black; a
  child playing Black that is told its role again; and the same child sent a position
  twice: flipped once when it got its role, it is flipped again by each delivery.
\<close>

theorem orientation_idempotent_witness:
  "ensureOrientation (ensureOrientation (childFresh\<lparr>role := Some black\<rparr>))
     = ensureOrientation (childFresh\<lparr>role := Some black\<rparr>)
   \<and> isReversed (ensureOrientation (childFresh\<lparr>role := Some black\<rparr>))
   \<and> reversed (board (ensureOrientation (childFresh\<lparr>role := Some black\<rparr>)))
   \<and> orientForRole (orientForRole (newcomer\<lparr>og_role := Some black\<rparr>))
       = orientForRole (newcomer\<lparr>og_role := Some black\<rparr>)
   \<and> og_isReversed (orientForRole (newcomer\<lparr>og_role := Some black\<rparr>))
   \<and> reversed (og_board (orientForRole (newcomer\<lparr>og_role := Some black\<rparr>)))
   \<and> embed_onMessage childBlack (fromParent (ROLE_ASSIGN black)) = childBlack
   \<and> board (embed_onMessage childBlack (fromParent (SYNC_STATE fenMate None)))
       = \<lparr>shown = fenMate, reversed = True, flips = 2\<rparr>
   \<and> board (embed_onMessage (embed_onMessage childBlack (fromParent (SYNC_STATE fenMate None)))
         (fromParent (SYNC_STATE fenMate None)))
       = \<lparr>shown = fenMate, reversed = True, flips = 3\<rparr>"
proof -
  have a: "isReversed (childFresh\<lparr>role := Some black\<rparr>)
             = reversed (board (childFresh\<lparr>role := Some black\<rparr>))"
    "role (childFresh\<lparr>role := Some black\<rparr>) = Some black"
    by (simp_all add: childFresh_def)
  have b: "og_isReversed (newcomer\<lparr>og_role := Some black\<rparr>)
             = reversed (og_board (newcomer\<lparr>og_role := Some black\<rparr>))"
    "og_role (newcomer\<lparr>og_role := Some black\<rparr>) = Some black"
    by (simp_all add: newcomer_def)
  have c: "msg_data (fromParent m) = Some m"
    "msg_origin (fromParent m) = location_origin childBlack" for m
    by (simp_all add: fromParent_def childBlack_facts)
  from orientation_idempotent [of "childFresh\<lparr>role := Some black\<rparr>"
      "newcomer\<lparr>og_role := Some black\<rparr>" "fromParent (SYNC_STATE fenMate None)"
      black fenMate None]
    orientation_idempotent [of childFresh newcomer "fromParent (ROLE_ASSIGN black)"
      black fenMate None]
    orientation_idempotent [of childBlack newcomer "fromParent (SYNC_STATE fenMate None)"
      black fenMate None]
  show ?thesis
    using a b c childBlack_facts(1,6) by (simp add: childBlack_def [symmetric])
qed

text \<open>
  The claim as stated fails for a child playing Black that is sent the same
  \<^verbatim>\<open>SYNC_STATE\<close> twice: the second delivery flips the board widget once more, so the
  child is not as the first delivery left it.
\<close>

theorem sync_twice_flips_again_counterexample:
  "flips (board (embed_onMessage childBlack (fromParent (SYNC_STATE fenMate None)))) = 2
   \<and> flips (board (embed_onMessage
        (embed_onMessage childBlack (fromParent (SYNC_STATE fenMate None)))
        (fromParent (SYNC_STATE fenMate None)))) = 3
   \<and> embed_onMessage (embed_onMessage childBlack (fromParent (SYNC_STATE fenMate None)))
        (fromParent (SYNC_STATE fenMate None))
       \<noteq> embed_onMessage childBlack (fromParent (SYNC_STATE fenMate None))"
proof -
  have one: "flips (board (embed_onMessage childBlack (fromParent (SYNC_STATE fenMate None)))) = 2"
    by (simp add: childBlack_def childFresh_def fromParent_def embed_onMessage_def
          ensureOrientation_def setFEN_def reverse_def Let_def)
  have two: "flips (board (embed_onMessage
        (embed_onMessage childBlack (fromParent (SYNC_STATE fenMate None)))
        (fromParent (SYNC_STATE fenMate None)))) = 3"
    by (simp add: childBlack_def childFresh_def fromParent_def embed_onMessage_def
          ensureOrientation_def setFEN_def reverse_def Let_def)
  from one two show ?thesis by auto
qed

section \<open>Embedded Board Controller: turn gating\<close>

text \<open>
  Claim C8. On a \<^verbatim>\<open>TURN\<close> message a child without a role stays as it is, and its
  moves, disabled since its creation, stay disabled. A child with
  a role that handles the message has its moves enabled exactly when the announced turn is
  its own side's: White with \<^verbatim>\<open>'w'\<close>, Black with \<^verbatim>\<open>'b'\<close>.
\<close>

theorem turn_gates_moves:
  assumes "msg_data g = Some (TURN t)"
  shows "(role k = None \<longrightarrow> embed_onMessage k g = k)
         \<and> (role k = None \<and> embed_inv k \<longrightarrow> moveDisabled (embed_onMessage k g))
         \<and> (msg_origin g = location_origin k \<and> role k = Some r
              \<longrightarrow> (\<not> moveDisabled (embed_onMessage k g))
                    = ((r = white \<and> t = turn_w) \<or> (r = black \<and> t = turn_b)))"
  using assms by (auto simp: embed_onMessage_def isMyTurn_def embed_inv_def)

text \<open>
  A fresh child ignores the turn; a child playing Black is enabled by Black's turn and
  disabled by White's.
\<close>

theorem turn_gates_moves_witness:
  "role childFresh = None
   \<and> embed_onMessage childFresh (fromParent (TURN turn_w)) = childFresh
   \<and> embed_inv childFresh
   \<and> moveDisabled (embed_onMessage childFresh (fromParent (TURN turn_w)))
   \<and> role childBlack = Some black
   \<and> \<not> moveDisabled (embed_onMessage childBlack (fromParent (TURN turn_b)))
   \<and> moveDisabled (embed_onMessage childBlack (fromParent (TURN turn_w)))"
proof -
  have d: "msg_data (fromParent (TURN t)) = Some (TURN t)" for t
    by (simp add: fromParent_def)
  have o: "msg_origin (fromParent (TURN t)) = location_origin childBlack" for t
    by (simp add: childBlack_facts) (simp add: fromParent_def)
  have n: "role childFresh = None" by (simp add: childFresh_def)
  from turn_gates_moves [of "fromParent (TURN turn_w)" turn_w childFresh black, OF d]
    turn_gates_moves [of "fromParent (TURN turn_b)" turn_b childBlack black, OF d]
    turn_gates_moves [of "fromParent (TURN turn_w)" turn_w childBlack black, OF d]
  show ?thesis
    using n o childBlack_facts(1) embed_inv_fresh by (auto simp: embed_inv_def)
qed

section \<open>Online Sync Controller: a rejected move\<close>

lemma guard_suppresses_move: "og_applyingRemote s \<Longrightarrow> online_onUserMove E (s, r) = (s, r)"
  by (simp add: online_onUserMove_def)

lemma rejected_move_no_write:
  assumes "chess_load E (og_chess s) (getFEN (og_board s)) = None"
  shows "snd (online_onUserMove E (s, r)) = r
         \<and> og_chess (fst (online_onUserMove E (s, r))) = og_chess s"
  using assms
  by (simp add: online_onUserMove_def orientForRole_def Let_def split: option.splits)

lemma rejected_move_display:
  assumes "chess_load E (og_chess s) (getFEN (og_board s)) = None"
    and "\<not> og_applyingRemote s" and "og_gameRef s \<noteq> None" and "og_role s \<noteq> None"
    and "og_bothJoined s" and "\<not> og_moveDisabled s"
  shows "fst (online_onUserMove E (s, r))
           = s\<lparr>og_board := \<lparr>shown = chess_fen E (og_chess s), reversed = (og_role s = Some black),
                             flips = flips (og_board s) + (if og_role s = Some black then 1 else 0)\<rparr>,
               og_isReversed := (og_role s = Some black)\<rparr>"
  using assms
  by (cases s)
     (auto simp: online_onUserMove_def orientForRole_def setFEN_def reverse_def Let_def
           split: option.splits)

text \<open>
  Claim C9. When the engine rejects the position the board reports, the user-move handler
  writes nothing to the room and the engine keeps the position it held. If the handler got
  as far as validating (no remote update in progress, a room and a role held, both players
  present, moves enabled), the board is set back to the engine's position and shown
  reversed exactly for Black (flipped once for that after the overwrite), the orientation
  flag follows, every other field is as before and the guard is down again. While the
  guard is up, a user-move notification is dropped.
\<close>

theorem rejected_move_reverts:
  assumes "chess_load E (og_chess s) (getFEN (og_board s)) = None"
  shows "snd (online_onUserMove E (s, r)) = r
         \<and> og_chess (fst (online_onUserMove E (s, r))) = og_chess s
         \<and> (\<not> og_applyingRemote s \<and> og_gameRef s \<noteq> None \<and> og_role s \<noteq> None
              \<and> og_bothJoined s \<and> \<not> og_moveDisabled s
            \<longrightarrow> fst (online_onUserMove E (s, r))
                  = s\<lparr>og_board := \<lparr>shown = chess_fen E (og_chess s),
                                   reversed = (og_role s = Some black),
                                   flips = flips (og_board s)
                                           + (if og_role s = Some black then 1 else 0)\<rparr>,
                      og_isReversed := (og_role s = Some black)\<rparr>
                \<and> \<not> og_applyingRemote (fst (online_onUserMove E (s, r))))
         \<and> (og_applyingRemote s \<longrightarrow> online_onUserMove E (s, r) = (s, r))"
  using rejected_move_no_write [OF assms, of r] rejected_move_display [OF assms, of r]
    guard_suppresses_move [of s E r]
  by simp

text \<open>
  Black, online, ends a drag with the board widget reporting a position without kings,
  which the engine rejects.
\<close>

theorem rejected_move_reverts_witness:
  "chess_load miniChess fenPreMate ''8/8/8/8/8/8/8/8 w - - 0 1'' = None
   \<and> snd (online_onUserMove miniChess (playerBlack ''8/8/8/8/8/8/8/8 w - - 0 1'', liveRoom)) = liveRoom
   \<and> og_chess (fst (online_onUserMove miniChess (playerBlack ''8/8/8/8/8/8/8/8 w - - 0 1'', liveRoom)))
       = fenPreMate
   \<and> og_board (fst (online_onUserMove miniChess (playerBlack ''8/8/8/8/8/8/8/8 w - - 0 1'', liveRoom)))
       = \<lparr>shown = fenPreMate, reversed = True, flips = 2\<rparr>
   \<and> og_isReversed (fst (online_onUserMove miniChess (playerBlack ''8/8/8/8/8/8/8/8 w - - 0 1'', liveRoom)))
   \<and> \<not> og_applyingRemote (fst (online_onUserMove miniChess (playerBlack ''8/8/8/8/8/8/8/8 w - - 0 1'', liveRoom)))
   \<and> online_onUserMove miniChess
        ((playerBlack ''8/8/8/8/8/8/8/8 w - - 0 1'')\<lparr>og_applyingRemote := True\<rparr>, liveRoom)
       = ((playerBlack ''8/8/8/8/8/8/8/8 w - - 0 1'')\<lparr>og_applyingRemote := True\<rparr>, liveRoom)"
proof -
  let ?junk = "''8/8/8/8/8/8/8/8 w - - 0 1''"
  have no: "chess_load miniChess fenPreMate ?junk = None"
    by (simp add: mini_defs)
  have ld: "chess_load miniChess (og_chess (playerBlack ?junk)) (getFEN (og_board (playerBlack ?junk)))
              = None"
    by (simp add: playerBlack_gate no)
  have ld': "chess_load miniChess (og_chess ((playerBlack ?junk)\<lparr>og_applyingRemote := True\<rparr>))
               (getFEN (og_board ((playerBlack ?junk)\<lparr>og_applyingRemote := True\<rparr>))) = None"
    using ld by (simp add: getFEN_def)
  have fn: "chess_fen miniChess fenPreMate = fenPreMate"
    by (simp add: miniChess_def)
  from rejected_move_reverts [OF ld, of liveRoom] rejected_move_reverts [OF ld', of liveRoom]
  show ?thesis
    using no by (simp add: playerBlack_gate fn)
qed

section \<open>Online Sync Controller: joining a room\<close>

text \<open>
  What \<^verbatim>\<open>joinGame\<close> does once it fetches the room: an absent room and a full room end the
  join without a write; a room whose white slot is taken and whose black slot is free is
  joined as Black with status \<^verbatim>\<open>live\<close>; a room whose white slot is free is joined as
  White with status \<^verbatim>\<open>waiting\<close>, whether or not the black slot is held.
\<close>

lemma join_not_found:
  assumes "og_role s = None" and "og_code s \<noteq> []" and "docs r (og_code s) = None"
  shows "joinGame J (s, r) = (s\<lparr>og_statusText := ''Game not found.'', og_gameRef := None\<rparr>, r)"
  using assms by (simp add: joinGame_def)

lemma join_full:
  assumes "og_role s = None" and "og_code s \<noteq> []" and "docs r (og_code s) = Some val"
    and "players val = Some ps" and "taken (white_player ps)" and "taken (black_player ps)"
  shows "joinGame J (s, r)
           = (s\<lparr>og_statusText := ''This game already has two players.'', og_gameRef := None\<rparr>, r)"
  using assms by (simp add: joinGame_def)

lemma join_claims_black:
  assumes "og_role s = None" and "og_code s \<noteq> []" and "docs r (og_code s) = Some val"
    and "players val = Some ps" and "taken (white_player ps)" and "\<not> taken (black_player ps)"
  shows "og_role (fst (joinGame J (s, r))) = Some black
         \<and> writes (snd (joinGame J (s, r)))
             = writes r @ [(og_code s, noDoc\<lparr>status := Some live,
                  players := Some (ps\<lparr>black_player := Some (og_clientId s)\<rparr>)\<rparr>)]"
  using assms
  by (simp add: joinGame_def joined_def orientForRole_def listenForUpdates_def update_def Let_def)

lemma join_claims_white:
  assumes "og_role s = None" and "og_code s \<noteq> []" and "docs r (og_code s) = Some val"
    and "ps = (case players val of None \<Rightarrow> noPlayers | Some p \<Rightarrow> p)"
    and "\<not> taken (white_player ps)"
  shows "og_role (fst (joinGame J (s, r))) = Some white
         \<and> writes (snd (joinGame J (s, r)))
             = writes r @ [(og_code s, noDoc\<lparr>status := Some waiting,
                  players := Some (ps\<lparr>white_player := Some (og_clientId s)\<rparr>)\<rparr>)]"
  using assms
  by (simp add: joinGame_def joined_def orientForRole_def listenForUpdates_def update_def Let_def)

text \<open>
  Claim C5 says that a join which leaves both slots occupied writes status \<^verbatim>\<open>live\<close>. The
  code at a room whose creator has left while the guest stayed: the newcomer takes the
  white slot, both slots are then occupied, and the status written is \<^verbatim>\<open>waiting\<close>.
\<close>

theorem join_vacated_white_slot:
  "\<forall>J. og_role (fst (joinGame J (newcomer, vacatedRoom))) = Some white
     \<and> writes (snd (joinGame J (newcomer, vacatedRoom)))
         = [(''ABC123'',
             \<lparr>fen = None, pgn = None, turn = None, status = Some waiting, winner = None,
              players = Some \<lparr>white_player = Some ''newcomer'', black_player = Some ''guest''\<rparr>\<rparr>)]
     \<and> docs (snd (joinGame J (newcomer, vacatedRoom))) ''ABC123''
         = Some \<lparr>fen = Some startFEN, pgn = None, turn = Some turn_w, status = Some waiting,
                 winner = None,
                 players = Some \<lparr>white_player = Some ''newcomer'', black_player = Some ''guest''\<rparr>\<rparr>
     \<and> taken (Some ''newcomer'') \<and> taken (Some ''guest'')"
  by (simp add: joinGame_def joined_def orientForRole_def listenForUpdates_def newcomer_def
        vacatedRoom_def taken_def noPlayers_def update_def merge_def orElse_def noDoc_def Let_def)

section \<open>Storage Adapter\<close>

lemma setItem_throws: "(fault ls \<noteq> NoFault) = (\<exists>e. setItem ls key v = Inl e)"
  by (cases "fault ls") (simp_all add: setItem_def)

lemma save_swallows: "fault ls \<noteq> NoFault \<Longrightarrow> save J key st ls = ls"
  by (cases "fault ls") (simp_all add: save_def setItem_def split: option.splits)

lemma load_after_save:
  assumes "fault ls = NoFault"
    and "stringify J st = Some raw" and "raw \<noteq> []" and "parse J raw = Some st"
  shows "load J key (save J key st ls) = Some st"
  using assms by (simp add: store_defs)

lemma load_after_clear: "load J key (clear key ls) = None"
  by (simp add: store_defs)

text \<open>
  Claim C10, as amended. \<^verbatim>\<open>setItem\<close> throws exactly when the browser store is in a
  fault. When it is in none, a state whose JSON text is not empty and parses back to it is
  returned by \<^verbatim>\<open>load\<close> after \<^verbatim>\<open>save\<close>. When it is in a fault, \<^verbatim>\<open>save\<close> swallows the
  exception and leaves the store as it was, whatever the state. After \<^verbatim>\<open>clear\<close>,
  \<^verbatim>\<open>load\<close> returns \<^verbatim>\<open>null\<close> whatever state the store is in.
\<close>

theorem storage_roundtrip:
  "(fault ls = NoFault \<and> stringify J st = Some raw \<and> raw \<noteq> [] \<and> parse J raw = Some st
      \<longrightarrow> load J key (save J key st ls) = Some st)
   \<and> (fault ls \<noteq> NoFault \<longrightarrow> save J key st ls = ls)
   \<and> (fault ls \<noteq> NoFault) = (\<exists>e. setItem ls key v = Inl e)
   \<and> load J key (clear key ls') = None"
  using load_after_save [of ls J st raw key] save_swallows [of ls J key st]
    setItem_throws [of ls key v] load_after_clear [of J key ls']
  by blast

text \<open>
  The start position is saved to an empty store in no fault and loaded back; saved to a
  store that takes no more data, it leaves that store as it was.
\<close>

theorem storage_roundtrip_witness:
  "fault emptyStore = NoFault
   \<and> stringify fenJson (SavedState startFEN) = Some (fenOpen @ startFEN @ fenClose)
   \<and> fenOpen @ startFEN @ fenClose \<noteq> []
   \<and> parse fenJson (fenOpen @ startFEN @ fenClose) = Some (SavedState startFEN)
   \<and> load fenJson offline_key (save fenJson offline_key (SavedState startFEN) emptyStore)
       = Some (SavedState startFEN)
   \<and> fault fullStore = QuotaExceeded
   \<and> save fenJson offline_key (SavedState startFEN) fullStore = fullStore
   \<and> load fenJson offline_key (clear offline_key fullStore) = None"
proof -
  have a: "fault emptyStore = NoFault" by (simp add: emptyStore_def)
  note b = fenJson_text [of startFEN]
  have c: "fenOpen @ startFEN @ fenClose \<noteq> []" by (simp add: fenOpen_def)
  note d = fenJson_roundtrip
  have e: "fault fullStore = QuotaExceeded" by (simp add: fullStore_def)
  from storage_roundtrip [of emptyStore fenJson "SavedState startFEN"
      "fenOpen @ startFEN @ fenClose" offline_key "[]" fullStore]
    storage_roundtrip [of fullStore fenJson "SavedState startFEN"
      "fenOpen @ startFEN @ fenClose" offline_key "[]" fullStore]
  show ?thesis
    using a b c d e by simp
qed

text \<open>
  The claim as stated fails when the store takes no more data (a full store, or a private
  window whose quota is zero): \<^verbatim>\<open>setItem\<close> throws, \<^verbatim>\<open>save\<close>
  swallows the exception, and \<^verbatim>\<open>load\<close> finds nothing, although the state has a JSON
  text that parses back to it.
\<close>

theorem storage_full_counterexample:
  "stringify fenJson (SavedState startFEN) = Some (fenOpen @ startFEN @ fenClose)
   \<and> parse fenJson (fenOpen @ startFEN @ fenClose) = Some (SavedState startFEN)
   \<and> load fenJson offline_key (save fenJson offline_key (SavedState startFEN) fullStore)
       \<noteq> Some (SavedState startFEN)"
  using fenJson_roundtrip
  by (simp add: store_defs fullStore_def fenJson_def)

end
